theory Spec2Isabelle
  imports Complex_Main "HOL-Library.Word" "HOL-Library.Log_Nat"
begin

section \<open>Sentinel: motion-gated person detection\<close>

text \<open>
  The development embeds the sensing and scheduling core of the application: the
  analysis client (\<open>analyzeImageForPerson\<close>), the handlers of the \<open>App\<close> component
  (\<open>addToHistory\<close>, \<open>handleImageCapture\<close>, \<open>handleNoMotion\<close>, \<open>toggleSystem\<close>) and the
  motion detector of the \<open>WebcamCapture\<close> component (\<open>checkForMotion\<close>,
  \<open>processFrame\<close>, \<open>triggerManualCapture\<close>).

  Conventions of the embedding.
  \<^item> React state (\<open>useState\<close>, \<open>useRef\<close>) is a record that every handler takes and
    returns updated.
  \<^item> A handler built with \<open>useCallback\<close> reads the values of the render that created
    it. These values are passed as a separate record (\<open>closure\<close>), so that a handler
    that runs with values older than the state is expressible.
  \<^item> An \<open>async\<close> handler is split at its \<open>await\<close>: the part before it and the part
    that runs when the promise settles.
  \<^item> A rejected promise or a thrown \<open>Error\<close> is \<open>Inl\<close> of its message.
  \<^item> JavaScript numbers that hold counts of milliseconds are \<open>int\<close>. The confidence,
    the sensitivity and the motion percentage are finite doubles, each given by its
    rational value; division and multiplication round their exact result to the nearest
    double (\<open>js_div\<close>, \<open>js_mul\<close>).
  \<^item> Every event is followed by one render: the state updates of one handler run are
    batched.
  \<^item> Message texts are written without their accents.
\<close>

subsection \<open>Result type\<close>

text \<open>
  Modelled from the spec: the module \<open>types\<close> that declares \<open>DetectionStatus\<close> and
  \<open>AnalysisResult\<close> is not among the sources. The five status values are the ones the
  spec lists for DetectionEvent and the ones the components switch over; the fields are
  the ones the spec lists and the sources assign, the optional ones as \<open>option\<close>.
\<close>

datatype DetectionStatus = PERSON_DETECTED | NO_PERSON | STATIC_SCENE | COOLDOWN | ERROR

record AnalysisResult =
  status :: DetectionStatus
  message :: string
  description :: "string option"
  confidence :: "rat option"
  timestamp :: int

subsection \<open>State of the App component\<close>

definition DEFAULT_INTERVAL :: int where
  "DEFAULT_INTERVAL = 30000"

text \<open>
  \<open>nextScanTime\<close> is \<open>nextScanTimeRef.current\<close>. \<open>alarmCalls\<close> counts the invocations
  of \<open>playAlarmSound\<close>; the sound itself (and the mute switch inside it) is outside the
  model.
\<close>

record app_state =
  isActive :: bool
  isAnalyzing :: bool
  lastResult :: "AnalysisResult option"
  history :: "AnalysisResult list"
  currentInterval :: int
  nextScanTime :: int
  alarmCalls :: nat

text \<open>The state after the first render at time \<open>t0\<close>.\<close>

definition initial_app :: "int \<Rightarrow> app_state" where
  "initial_app t0 =
     \<lparr>isActive = False, isAnalyzing = False, lastResult = None, history = [],
      currentInterval = DEFAULT_INTERVAL, nextScanTime = t0 + DEFAULT_INTERVAL,
      alarmCalls = 0\<rparr>"

text \<open>
  The values of one render that the memoised callbacks built in it captured:
  \<open>isActive\<close> (read by \<open>processFrame\<close>), \<open>isAnalyzing\<close> and \<open>currentInterval\<close> (read
  by \<open>handleImageCapture\<close> and \<open>handleNoMotion\<close>).
\<close>

record closure =
  seenActive :: bool
  seenAnalyzing :: bool
  seenInterval :: int

definition render :: "app_state \<Rightarrow> closure" where
  "render s =
     \<lparr>seenActive = isActive s, seenAnalyzing = isAnalyzing s,
      seenInterval = currentInterval s\<rparr>"

subsection \<open>History\<close>

text \<open>\<open>setHistory(prev => [result, ...prev].slice(0, 5))\<close>\<close>

definition addToHistory :: "AnalysisResult \<Rightarrow> AnalysisResult list \<Rightarrow> AnalysisResult list" where
  "addToHistory result prev = take 5 (result # prev)"

definition playAlarmSound :: "app_state \<Rightarrow> app_state" where
  "playAlarmSound s = s\<lparr>alarmCalls := alarmCalls s + 1\<rparr>"

subsection \<open>handleImageCapture\<close>

text \<open>
  Up to the \<open>await\<close>: the guard on \<open>isAnalyzing\<close> and \<open>setIsAnalyzing(true)\<close>. The
  boolean tells whether \<open>analyzeImageForPerson\<close> is invoked.
\<close>

definition handleImageCapture_enter :: "closure \<Rightarrow> app_state \<Rightarrow> app_state \<times> bool" where
  "handleImageCapture_enter cl s =
     (if seenAnalyzing cl then (s, False) else (s\<lparr>isAnalyzing := True\<rparr>, True))"

text \<open>The two results built in the \<open>catch\<close> block, at time \<open>now\<close>.\<close>

definition cooldownResult :: "int \<Rightarrow> AnalysisResult" where
  "cooldownResult now =
     \<lparr>status = COOLDOWN, message = ''Ajustando Frequencia'',
      description = Some ''Economizando recursos da nuvem.'',
      confidence = None, timestamp = now\<rparr>"

definition sensorErrorResult :: "string \<Rightarrow> int \<Rightarrow> AnalysisResult" where
  "sensorErrorResult msg now =
     \<lparr>status = ERROR, message = ''Erro no Sensor'',
      description = Some (if msg = [] then ''Falha na analise da imagem.'' else msg),
      confidence = None, timestamp = now\<rparr>"

text \<open>
  From the \<open>await\<close> on. \<open>outcome\<close> is what the promise of \<open>analyzeImageForPerson\<close>
  settled with; \<open>tCatch\<close> and \<open>tFinally\<close> are the readings of \<open>Date.now()\<close> in the
  \<open>catch\<close> and in the \<open>finally\<close> block. \<open>currentInterval\<close> in the body is the captured
  value, the setters act on the state.
\<close>

definition handleImageCapture_settle ::
  "closure \<Rightarrow> string + AnalysisResult \<Rightarrow> int \<Rightarrow> int \<Rightarrow> app_state \<Rightarrow> app_state" where
  "handleImageCapture_settle cl outcome tCatch tFinally s =
     (let s' =
        (case outcome of
           Inr result \<Rightarrow>
             (let s1 = s\<lparr>lastResult := Some result\<rparr>;
                  s2 = s1\<lparr>history := addToHistory result (history s1)\<rparr>;
                  s3 = s2\<lparr>currentInterval := DEFAULT_INTERVAL\<rparr>
              in if status result = PERSON_DETECTED then playAlarmSound s3 else s3)
         | Inl msg \<Rightarrow>
             (if msg = ''QUOTA_EXCEEDED''
              then
                (let newInterval = min (seenInterval cl * 2) 300000;
                     s1 = s\<lparr>currentInterval := newInterval\<rparr>;
                     errorResult = cooldownResult tCatch;
                     s2 = s1\<lparr>lastResult := Some errorResult\<rparr>
                 in s2\<lparr>history := addToHistory errorResult (history s2)\<rparr>)
              else
                (let errorResult = sensorErrorResult msg tCatch;
                     s1 = s\<lparr>lastResult := Some errorResult\<rparr>
                 in s1\<lparr>history := addToHistory errorResult (history s1)\<rparr>)))
      in s'\<lparr>isAnalyzing := False, nextScanTime := tFinally + seenInterval cl\<rparr>)"

subsection \<open>handleNoMotion and toggleSystem\<close>

definition staticSceneResult :: "int \<Rightarrow> AnalysisResult" where
  "staticSceneResult now =
     \<lparr>status = STATIC_SCENE, message = ''Perimetro Estatico'',
      description = Some ''Sem alteracoes na cena.'',
      confidence = None, timestamp = now\<rparr>"

definition handleNoMotion :: "closure \<Rightarrow> int \<Rightarrow> app_state \<Rightarrow> app_state" where
  "handleNoMotion cl now s =
     (let result = staticSceneResult now;
          s1 = s\<lparr>lastResult := Some result\<rparr>;
          s2 = s1\<lparr>history := addToHistory result (history s1)\<rparr>
      in s2\<lparr>nextScanTime := now + seenInterval cl\<rparr>)"

text \<open>\<open>toggleSystem\<close> is rebuilt on every render, so it reads the state itself.\<close>

definition toggleSystem :: "int \<Rightarrow> app_state \<Rightarrow> app_state" where
  "toggleSystem now s =
     (let newState = \<not> isActive s;
          s1 = s\<lparr>isActive := newState\<rparr>
      in if \<not> newState
         then s1\<lparr>lastResult := None, history := [], currentInterval := DEFAULT_INTERVAL\<rparr>
         else s1\<lparr>nextScanTime := now + DEFAULT_INTERVAL\<rparr>)"

subsection \<open>The analysis client\<close>

text \<open>
  \<open>String.prototype.toLowerCase\<close> and \<open>String.prototype.includes\<close>, on strings of
  ASCII characters.
\<close>

definition toLowerChar :: "char \<Rightarrow> char" where
  "toLowerChar c =
     (let n = (of_char c :: nat) in if 65 \<le> n \<and> n \<le> 90 then char_of (n + 32) else c)"

definition toLowerCase :: "string \<Rightarrow> string" where
  "toLowerCase s = map toLowerChar s"

fun startsWith :: "string \<Rightarrow> string \<Rightarrow> bool" where
  "startsWith s [] = True"
| "startsWith [] (p # ps) = False"
| "startsWith (c # cs) (p # ps) = (c = p \<and> startsWith cs ps)"

fun str_includes :: "string \<Rightarrow> string \<Rightarrow> bool" where
  "str_includes [] p = (p = [])"
| "str_includes (c # cs) p = (startsWith (c # cs) p \<or> str_includes cs p)"

text \<open>
  The object that \<open>JSON.parse\<close> returns for a response that follows the
  \<open>responseSchema\<close> of the request.
\<close>

record json_result =
  personDetected :: bool
  json_confidence :: rat
  json_description :: string

text \<open>
  The body of the \<open>try\<close> block. \<open>reply\<close> is how \<open>ai.models.generateContent\<close> settled:
  \<open>Inl m\<close> when it rejected with message \<open>m\<close>, \<open>Inr text\<close> when it returned a response
  whose \<open>text\<close> is \<open>text\<close> (\<open>None\<close> for \<open>undefined\<close>). \<open>parse\<close> stands for \<open>JSON.parse\<close>
  followed by the reading of the three fields: \<open>Inl m\<close> when that throws with message
  \<open>m\<close>. The result is \<open>Inl\<close> of the message of the error the block throws.
\<close>

definition analyze_try ::
  "(string \<Rightarrow> string + json_result) \<Rightarrow> string + string option \<Rightarrow> int \<Rightarrow> string + AnalysisResult" where
  "analyze_try parse reply now =
     (case reply of
        Inl m \<Rightarrow> Inl m
      | Inr None \<Rightarrow> Inl ''Resposta vazia da IA''
      | Inr (Some textOutput) \<Rightarrow>
          (if textOutput = [] then Inl ''Resposta vazia da IA''
           else
             (case parse textOutput of
                Inl m \<Rightarrow> Inl m
              | Inr result \<Rightarrow>
                  (let isReliable = (personDetected result \<and> json_confidence result > 45)
                   in Inr \<lparr>status = (if isReliable then PERSON_DETECTED else NO_PERSON),
                           message = (if isReliable then ''AREA NAO SEGURA - INVASAO''
                                      else ''AREA SEGURA - PERIMETRO LIMPO''),
                           description = Some (json_description result),
                           confidence = Some (json_confidence result),
                           timestamp = now\<rparr>))))"

definition isQuotaMessage :: "string \<Rightarrow> bool" where
  "isQuotaMessage errorMessage =
     (str_includes (toLowerCase errorMessage) ''429'' \<or>
      str_includes (toLowerCase errorMessage) ''quota'')"

definition sensorFailure :: "int \<Rightarrow> AnalysisResult" where
  "sensorFailure now =
     \<lparr>status = ERROR, message = ''FALHA NO SENSOR'',
      description = Some ''Erro tecnico na comunicacao com a IA.'',
      confidence = None, timestamp = now\<rparr>"

text \<open>The whole function: the \<open>try\<close> block and its \<open>catch\<close>.\<close>

definition analyzeImageForPerson ::
  "(string \<Rightarrow> string + json_result) \<Rightarrow> string + string option \<Rightarrow> int \<Rightarrow> string + AnalysisResult" where
  "analyzeImageForPerson parse reply now =
     (case analyze_try parse reply now of
        Inr r \<Rightarrow> Inr r
      | Inl errorMessage \<Rightarrow>
          (if isQuotaMessage errorMessage then Inl ''QUOTA_EXCEEDED''
           else Inr (sensorFailure now)))"

subsection \<open>Double arithmetic\<close>

text \<open>
  A finite double is given by its rational value. \<open>roundToDouble\<close> rounds a rational
  to the nearest binary64 value, ties to the even significand: \<open>ilog2\<close> is the binary
  exponent of a positive rational, the unit in the last place is \<open>2\<close> to the exponent
  minus 52, and exponents below \<open>-1022\<close> share the unit of the subnormal range.
  Results beyond the largest double (which are \<open>Infinity\<close>) do not occur for the
  operands used here and are not modelled. The count of changed pixels is an exact
  double: a typed array is far shorter than \<open>2 ^ 53\<close> entries.
\<close>

definition pow2 :: "int \<Rightarrow> rat" where
  "pow2 e = (if 0 \<le> e then 2 ^ nat e else 1 / 2 ^ nat (- e))"

definition ilog2 :: "rat \<Rightarrow> int" where
  "ilog2 x = (if 1 \<le> x then bitlen \<lfloor>x\<rfloor> - 1 else - bitlen (\<lceil>1 / x\<rceil> - 1))"

definition roundHalfEven :: "rat \<Rightarrow> int" where
  "roundHalfEven x =
     (let f = \<lfloor>x\<rfloor>; d = x - of_int f
      in if d < 1 / 2 then f
         else if 1 / 2 < d then f + 1
         else if even f then f else f + 1)"

definition roundToDouble :: "rat \<Rightarrow> rat" where
  "roundToDouble x =
     (if x = 0 then 0
      else
        (let e = max (ilog2 \<bar>x\<bar>) (- 1022);
             ulp = pow2 (e - 52)
         in sgn x * of_int (roundHalfEven (\<bar>x\<bar> / ulp)) * ulp))"

text \<open>The operators \<open>/\<close> and \<open>*\<close> on numbers (the divisors used are never zero).\<close>

definition js_div :: "rat \<Rightarrow> rat \<Rightarrow> rat" where
  "js_div a b = roundToDouble (a / b)"

definition js_mul :: "rat \<Rightarrow> rat \<Rightarrow> rat" where
  "js_mul a b = roundToDouble (a * b)"

subsection \<open>The motion detector of WebcamCapture\<close>

text \<open>
  \<open>prevFrameData\<close> is \<open>prevFrameDataRef.current\<close> (\<open>None\<close> for \<open>null\<close>), a
  \<open>Uint8ClampedArray\<close> of RGBA bytes.
\<close>

record webcam_state =
  prevFrameData :: "8 word list option"
  motionLevel :: rat

text \<open>
  Reading a typed array: \<open>None\<close> is \<open>undefined\<close>, which the arithmetic turns into
  \<open>NaN\<close>; \<open>NaN > 30\<close> is false.
\<close>

definition byteAt :: "8 word list \<Rightarrow> nat \<Rightarrow> int option" where
  "byteAt d i = (if i < length d then Some (uint (d ! i)) else None)"

definition absDiff :: "int option \<Rightarrow> int option \<Rightarrow> int option" where
  "absDiff a b =
     (case a of None \<Rightarrow> None
      | Some x \<Rightarrow> (case b of None \<Rightarrow> None | Some y \<Rightarrow> Some \<bar>x - y\<bar>))"

definition addNum :: "int option \<Rightarrow> int option \<Rightarrow> int option" where
  "addNum a b =
     (case a of None \<Rightarrow> None
      | Some x \<Rightarrow> (case b of None \<Rightarrow> None | Some y \<Rightarrow> Some (x + y)))"

definition pixelDiff :: "8 word list \<Rightarrow> 8 word list \<Rightarrow> nat \<Rightarrow> int option" where
  "pixelDiff currentData prevData i =
     (let rDiff = absDiff (byteAt currentData i) (byteAt prevData i);
          gDiff = absDiff (byteAt currentData (i + 1)) (byteAt prevData (i + 1));
          bDiff = absDiff (byteAt currentData (i + 2)) (byteAt prevData (i + 2))
      in addNum (addNum rDiff gDiff) bDiff)"

text \<open>The \<open>for\<close> loop, from index \<open>i\<close> with the two accumulators.\<close>

function diffLoop :: "8 word list \<Rightarrow> 8 word list \<Rightarrow> nat \<Rightarrow> nat \<Rightarrow> int \<Rightarrow> nat \<times> int" where
  "diffLoop currentData prevData i changedPixels totalDiff =
     (if i < length currentData
      then
        (case pixelDiff currentData prevData i of
           None \<Rightarrow> diffLoop currentData prevData (i + 4) changedPixels totalDiff
         | Some d \<Rightarrow>
             (if d > 30
              then diffLoop currentData prevData (i + 4) (changedPixels + 1) (totalDiff + d)
              else diffLoop currentData prevData (i + 4) changedPixels totalDiff))
      else (changedPixels, totalDiff))"
  by pat_completeness auto
termination
  by (relation "measure (\<lambda>(currentData, prevData, i, changedPixels, totalDiff). length currentData - i)") auto

declare diffLoop.simps [simp del]

text \<open>
  \<open>sample\<close> is the data of the 50 by 50 image that \<open>drawImage\<close> and \<open>getImageData\<close>
  produce, \<open>None\<close> when the 2D context of the scratch canvas or the video element is
  missing. The result is the returned boolean and the state of the component.
\<close>

definition checkForMotion :: "rat \<Rightarrow> webcam_state \<Rightarrow> 8 word list option \<Rightarrow> bool \<times> webcam_state" where
  "checkForMotion motionSensitivity c sample =
     (let scaledWidth = (50::nat); scaledHeight = (50::nat) in
      case sample of
        None \<Rightarrow> (True, c)
      | Some currentData \<Rightarrow>
          (case prevFrameData c of
             None \<Rightarrow> (True, c\<lparr>prevFrameData := Some currentData\<rparr>)
           | Some prevData \<Rightarrow>
               (let (changedPixels, totalDiff) = diffLoop currentData prevData 0 0 0;
                    c1 = c\<lparr>prevFrameData := Some currentData\<rparr>;
                    totalPixels = scaledWidth * scaledHeight;
                    changePercentage =
                      js_mul (js_div (of_nat changedPixels) (of_nat totalPixels)) 100;
                    c2 = c1\<lparr>motionLevel := changePercentage\<rparr>;
                    threshold = js_div motionSensitivity 10
                in (changePercentage > threshold, c2))))"

text \<open>
  What a tick or a manual trigger finds: the size of the video, whether the video and
  canvas elements and the 2D context of the capture canvas are there, the sample for the
  motion check and the JPEG data URL that \<open>toDataURL\<close> returns.
\<close>

record video_frame =
  videoWidth :: nat
  videoHeight :: nat
  refsPresent :: bool
  canvasCtxPresent :: bool
  sampleData :: "8 word list option"
  dataURL :: string

definition captureCurrentFrame :: "video_frame \<Rightarrow> string option" where
  "captureCurrentFrame f =
     (if \<not> refsPresent f then None
      else if videoWidth f = 0 then None
      else if \<not> canvasCtxPresent f then None
      else Some (dataURL f))"

text \<open>
  What a call of the component does to its parent. The test \<open>if (img)\<close> fails for
  \<open>null\<close> and for the empty string.
\<close>

datatype callback = NoCallback | OnCapture string | OnNoMotion

definition whenImage :: "string option \<Rightarrow> callback" where
  "whenImage img =
     (case img of
        None \<Rightarrow> NoCallback
      | Some url \<Rightarrow> (if url = [] then NoCallback else OnCapture url))"

definition triggerManualCapture :: "video_frame \<Rightarrow> callback" where
  "triggerManualCapture f = whenImage (captureCurrentFrame f)"

text \<open>\<open>active\<close> is the \<open>isActive\<close> prop that the callback captured.\<close>

definition processFrame :: "bool \<Rightarrow> rat \<Rightarrow> video_frame \<Rightarrow> webcam_state \<Rightarrow> callback \<times> webcam_state" where
  "processFrame active motionSensitivity f c =
     (if \<not> active then (NoCallback, c)
      else if \<not> refsPresent f then (NoCallback, c)
      else if videoWidth f = 0 \<or> videoHeight f = 0 then (NoCallback, c)
      else if \<not> canvasCtxPresent f then (NoCallback, c)
      else
        (let (hasMotion, c') = checkForMotion motionSensitivity c (sampleData f)
         in if hasMotion
            then (whenImage (captureCurrentFrame f), c')
            else (OnNoMotion, c')))"

text \<open>
  \<open>startCamera\<close>: \<open>granted\<close> tells whether \<open>getUserMedia\<close> resolved. Only the stored
  sample is modelled.
\<close>

definition startCamera :: "bool \<Rightarrow> webcam_state \<Rightarrow> webcam_state" where
  "startCamera granted c = (if granted then c\<lparr>prevFrameData := None\<rparr> else c)"

subsection \<open>The two components wired together\<close>

text \<open>
  \<open>App\<close> passes \<open>handleImageCapture\<close> as \<open>onCapture\<close>, \<open>handleNoMotion\<close> as
  \<open>onNoMotion\<close> and \<open>isActive\<close> to \<open>WebcamCapture\<close>, and no \<open>motionSensitivity\<close>, so
  the default 15 applies.

  Besides the state of the two components the system records
  \<^item> \<open>stream\<close> and \<open>permissionError\<close>: whether the states of these names are set;
  \<^item> \<open>cameraPending\<close>: the calls of \<open>getUserMedia\<close> that have not settled;
  \<^item> \<open>timeoutHandler\<close>: the closure of the \<open>processFrame\<close> that the pending
    \<open>setTimeout\<close> of the interval effect will run, if one is pending;
  \<^item> \<open>intervalHandlers\<close>: the closures of the \<open>processFrame\<close> callbacks given to
    \<open>setInterval\<close>, in the order of the calls;
  \<^item> \<open>pending\<close>: the calls of \<open>analyzeImageForPerson\<close> that have not settled, each
    with the closure of the handler that awaits it;
  \<^item> \<open>apiCalls\<close>: the number of calls of \<open>analyzeImageForPerson\<close> made.
\<close>

definition motionSensitivity_default :: rat where
  "motionSensitivity_default = 15"

record system =
  app :: app_state
  cam :: webcam_state
  stream :: bool
  permissionError :: bool
  cameraPending :: nat
  timeoutHandler :: "closure option"
  intervalHandlers :: "closure list"
  pending :: "closure list"
  apiCalls :: nat

definition initial_system :: "int \<Rightarrow> system" where
  "initial_system t0 =
     \<lparr>app = initial_app t0, cam = \<lparr>prevFrameData = None, motionLevel = 0\<rparr>,
      stream = False, permissionError = False, cameraPending = 0,
      timeoutHandler = None, intervalHandlers = [], pending = [], apiCalls = 0\<rparr>"

definition onCapture :: "closure \<Rightarrow> system \<Rightarrow> system" where
  "onCapture cl sys =
     (let (s', called) = handleImageCapture_enter cl (app sys)
      in if called
         then sys\<lparr>app := s', pending := pending sys @ [cl], apiCalls := apiCalls sys + 1\<rparr>
         else sys\<lparr>app := s'\<rparr>)"

definition onNoMotion :: "closure \<Rightarrow> int \<Rightarrow> system \<Rightarrow> system" where
  "onNoMotion cl now sys = sys\<lparr>app := handleNoMotion cl now (app sys)\<rparr>"

definition deliver :: "closure \<Rightarrow> int \<Rightarrow> callback \<Rightarrow> system \<Rightarrow> system" where
  "deliver cl now cb sys =
     (case cb of
        NoCallback \<Rightarrow> sys
      | OnCapture img \<Rightarrow> onCapture cl sys
      | OnNoMotion \<Rightarrow> onNoMotion cl now sys)"

text \<open>
  A run of \<open>processFrame\<close> and a manual trigger at time \<open>now\<close>, by callbacks that
  captured \<open>cl\<close>.
\<close>

definition tick :: "closure \<Rightarrow> video_frame \<Rightarrow> int \<Rightarrow> system \<Rightarrow> system" where
  "tick cl f now sys =
     (let (cb, c') = processFrame (seenActive cl) motionSensitivity_default f (cam sys)
      in deliver cl now cb (sys\<lparr>cam := c'\<rparr>))"

definition manualTrigger :: "closure \<Rightarrow> video_frame \<Rightarrow> int \<Rightarrow> system \<Rightarrow> system" where
  "manualTrigger cl f now sys = deliver cl now (triggerManualCapture f) sys"

text \<open>The pending call number \<open>k\<close> settles; \<open>settle\<close> is the oldest one settling.\<close>

definition settleAt ::
  "nat \<Rightarrow> string + AnalysisResult \<Rightarrow> int \<Rightarrow> int \<Rightarrow> system \<Rightarrow> system" where
  "settleAt k outcome tCatch tFinally sys =
     (if k < length (pending sys)
      then sys\<lparr>app := handleImageCapture_settle (pending sys ! k) outcome tCatch tFinally
                          (app sys),
               pending := take k (pending sys) @ drop (Suc k) (pending sys)\<rparr>
      else sys)"

definition settle :: "string + AnalysisResult \<Rightarrow> int \<Rightarrow> int \<Rightarrow> system \<Rightarrow> system" where
  "settle outcome tCatch tFinally sys = settleAt 0 outcome tCatch tFinally sys"

text \<open>
  Toggling also runs the camera effect of \<open>WebcamCapture\<close>: on activation it calls
  \<open>startCamera\<close>, whose \<open>getUserMedia\<close> settles later; on deactivation it drops the
  stream and resets the motion level.
\<close>

definition toggle :: "int \<Rightarrow> system \<Rightarrow> system" where
  "toggle now sys =
     (let s' = toggleSystem now (app sys)
      in if isActive s' then sys\<lparr>app := s', cameraPending := cameraPending sys + 1\<rparr>
         else sys\<lparr>app := s', stream := False, cam := (cam sys)\<lparr>motionLevel := 0\<rparr>\<rparr>)"

definition cameraSettled :: "bool \<Rightarrow> system \<Rightarrow> system" where
  "cameraSettled granted sys =
     (if cameraPending sys = 0 then sys
      else
        (let sys1 = sys\<lparr>cameraPending := cameraPending sys - 1,
                         cam := startCamera granted (cam sys)\<rparr>
         in if granted then sys1\<lparr>stream := True, permissionError := False\<rparr>
            else sys1\<lparr>permissionError := True\<rparr>))"

text \<open>
  The interval effect of \<open>WebcamCapture\<close>, after the render that follows an event
  (\<open>sys0\<close> is the system before the event, \<open>sys1\<close> after its handler). Its
  dependencies change when the render values, the stream or the permission error
  change. Its cleanup clears the pending timeout only; when the system is active with a
  stream the effect sets a new timeout and a new interval with the \<open>processFrame\<close> of the
  new render. No interval is ever cleared: the cleanup that calls \<open>clearInterval\<close> is
  returned only by a run that set no interval. (The sound switch, which also rebuilds
  the callbacks and so reruns the effect, is not modelled.)
\<close>

definition intervalEffect :: "system \<Rightarrow> system \<Rightarrow> system" where
  "intervalEffect sys0 sys1 =
     (if render (app sys1) = render (app sys0) \<and> stream sys1 = stream sys0
          \<and> permissionError sys1 = permissionError sys0
      then sys1
      else if isActive (app sys1) \<and> \<not> permissionError sys1 \<and> stream sys1
      then sys1\<lparr>timeoutHandler := Some (render (app sys1)),
                intervalHandlers := intervalHandlers sys1 @ [render (app sys1)]\<rparr>
      else sys1\<lparr>timeoutHandler := None\<rparr>)"

datatype event =
    Toggle int
  | CameraSettled bool
  | TimeoutFires video_frame int
  | IntervalFires nat video_frame int
  | ManualTrigger video_frame int
  | Settle nat "string + AnalysisResult" int int

text \<open>
  The handler of one event. The timeout runs the \<open>processFrame\<close> it was set with, the
  interval number \<open>k\<close> the one it was set with; \<open>triggerManualCapture\<close> is rebuilt on
  every render and calls the \<open>onCapture\<close> of the latest one.
\<close>

fun dispatch :: "system \<Rightarrow> event \<Rightarrow> system" where
  "dispatch sys (Toggle now) = toggle now sys"
| "dispatch sys (CameraSettled granted) = cameraSettled granted sys"
| "dispatch sys (TimeoutFires f now) =
     (case timeoutHandler sys of
        None \<Rightarrow> sys
      | Some cl \<Rightarrow> tick cl f now (sys\<lparr>timeoutHandler := None\<rparr>))"
| "dispatch sys (IntervalFires k f now) =
     (if k < length (intervalHandlers sys) then tick (intervalHandlers sys ! k) f now sys
      else sys)"
| "dispatch sys (ManualTrigger f now) = manualTrigger (render (app sys)) f now sys"
| "dispatch sys (Settle k outcome tCatch tFinally) = settleAt k outcome tCatch tFinally sys"

definition step :: "system \<Rightarrow> event \<Rightarrow> system" where
  "step sys ev = intervalEffect sys (dispatch sys ev)"

definition run :: "system \<Rightarrow> event list \<Rightarrow> system" where
  "run sys evs = foldl step sys evs"

text \<open>
  One whole analysis cycle on the App state, with nothing in between: the handler of
  the latest render enters, the call settles with \<open>outcome\<close>.
\<close>

definition cycle :: "string + AnalysisResult \<Rightarrow> int \<Rightarrow> int \<Rightarrow> app_state \<Rightarrow> app_state" where
  "cycle outcome tCatch tFinally s =
     (let cl = render s;
          (s', called) = handleImageCapture_enter cl s
      in if called then handleImageCapture_settle cl outcome tCatch tFinally s' else s')"

subsection \<open>The changed-pixel count, as the specification words it\<close>

text \<open>
  The loop's own test at pixel \<open>j\<close> (bytes \<open>4 * j\<close> to \<open>4 * j + 2\<close>).
\<close>

definition pixelChanged :: "8 word list \<Rightarrow> 8 word list \<Rightarrow> nat \<Rightarrow> bool" where
  "pixelChanged currentData prevData j =
     (case pixelDiff currentData prevData (4 * j) of None \<Rightarrow> False | Some d \<Rightarrow> d > 30)"

text \<open>
  The specification: a pixel counts as changed if the sum of the absolute differences
  of its R, G and B channels against the previous sample exceeds 30; the motion level
  is the number of changed pixels of the \<open>n\<close> pixels of the grid, divided by the 2500
  pixels of a 50 by 50 grid, times 100, in the arithmetic of doubles.
\<close>

definition spec_pixelChanged :: "8 word list \<Rightarrow> 8 word list \<Rightarrow> nat \<Rightarrow> bool" where
  "spec_pixelChanged cur prev j =
     (\<bar>uint (cur ! (4 * j)) - uint (prev ! (4 * j))\<bar>
      + \<bar>uint (cur ! (4 * j + 1)) - uint (prev ! (4 * j + 1))\<bar>
      + \<bar>uint (cur ! (4 * j + 2)) - uint (prev ! (4 * j + 2))\<bar> > 30)"

definition spec_changedPixelCount :: "8 word list \<Rightarrow> 8 word list \<Rightarrow> nat \<Rightarrow> nat" where
  "spec_changedPixelCount cur prev n = length (filter (spec_pixelChanged cur prev) [0..<n])"

definition spec_motionLevel :: "8 word list \<Rightarrow> 8 word list \<Rightarrow> nat \<Rightarrow> rat" where
  "spec_motionLevel cur prev n =
     js_mul (js_div (of_nat (spec_changedPixelCount cur prev n)) 2500) 100"

subsection \<open>Concrete inputs\<close>

text \<open>
  A frame of a running camera (its sample cut down to 40 pixels), the same scene
  with every pixel changed, results and replies of the remote call.
\<close>

definition example_frame :: video_frame where
  "example_frame =
     \<lparr>videoWidth = 1280, videoHeight = 720, refsPresent = True, canvasCtxPresent = True,
      sampleData = Some (replicate 160 10),
      dataURL = ''data:image/jpeg;base64,AAAA''\<rparr>"

definition example_frame_moved :: video_frame where
  "example_frame_moved =
     \<lparr>videoWidth = 1280, videoHeight = 720, refsPresent = True, canvasCtxPresent = True,
      sampleData = Some (replicate 160 200),
      dataURL = ''data:image/jpeg;base64,BBBB''\<rparr>"

definition example_result :: AnalysisResult where
  "example_result =
     \<lparr>status = NO_PERSON, message = ''AREA SEGURA - PERIMETRO LIMPO'',
      description = Some ''vazio'', confidence = Some 90, timestamp = 2500\<rparr>"

definition example_parse :: "rat \<Rightarrow> string \<Rightarrow> string + json_result" where
  "example_parse c textOutput =
     Inr \<lparr>personDetected = True, json_confidence = c, json_description = ''vulto''\<rparr>"

definition failing_parse :: "string \<Rightarrow> string + json_result" where
  "failing_parse textOutput = Inl ''Unexpected end of JSON input''"

text \<open>The App state after one quota failure from the initial state.\<close>

definition backed_off_app :: app_state where
  "backed_off_app = cycle (Inl ''QUOTA_EXCEEDED'') 1000 1000 (initial_app 0)"

text \<open>
  A system that is active with a running camera, and the same system after its first
  scan has started a call.
\<close>

definition armed_system :: system where
  "armed_system = run (initial_system 0) [Toggle 0, CameraSettled True]"

definition busy_system :: system where
  "busy_system =
     run (initial_system 0) [Toggle 0, CameraSettled True, TimeoutFires example_frame 1000]"

text \<open>
  A quota failure (interval 60000), a second scan that starts a call, and a
  deactivation while that call is pending.
\<close>

definition late_quota_events :: "event list" where
  "late_quota_events =
     [Toggle 0, CameraSettled True, TimeoutFires example_frame 1000,
      Settle 0 (Inl ''QUOTA_EXCEEDED'') 2000 2000,
      TimeoutFires example_frame_moved 3000, Toggle 4000]"

section \<open>Shared lemmas\<close>

subsection \<open>Evaluating the concrete inputs\<close>

lemmas app_defs =
  initial_app_def DEFAULT_INTERVAL_def render_def addToHistory_def playAlarmSound_def
  handleImageCapture_enter_def handleImageCapture_settle_def handleNoMotion_def
  toggleSystem_def cycle_def cooldownResult_def sensorErrorResult_def staticSceneResult_def

lemmas cam_defs =
  byteAt_def absDiff_def addNum_def pixelDiff_def diffLoop.simps checkForMotion_def
  captureCurrentFrame_def whenImage_def triggerManualCapture_def processFrame_def
  startCamera_def motionSensitivity_default_def

lemmas system_defs =
  initial_system_def onCapture_def onNoMotion_def deliver_def tick_def manualTrigger_def
  settleAt_def settle_def toggle_def cameraSettled_def intervalEffect_def step_def run_def

lemmas example_defs =
  example_frame_def example_frame_moved_def example_result_def example_parse_def
  failing_parse_def backed_off_app_def armed_system_def busy_system_def
  late_quota_events_def

text \<open>The doubles that the concrete inputs produce.\<close>

lemma roundToDouble_zero: "roundToDouble 0 = 0"
  by (simp add: roundToDouble_def)

lemma js_level_zero: "js_mul (js_div 0 2500) 100 = 0"
  by (simp add: js_mul_def js_div_def roundToDouble_zero)

lemma js_threshold_15: "js_div 15 10 = 3 / 2"
  by code_simp

lemma js_threshold_14: "js_div 14 10 = 3152519739159347 / 2251799813685248"
  by code_simp

lemma js_threshold_16: "js_div 16 10 = 3602879701896397 / 2251799813685248"
  by code_simp

lemma js_level_40: "js_mul (js_div 40 2500) 100 = 3602879701896397 / 2251799813685248"
  by code_simp

lemma js_level_35: "js_mul (js_div 35 2500) 100 = 6305039478318695 / 4503599627370496"
  by code_simp

lemmas js_values =
  js_level_zero js_threshold_15 js_threshold_14 js_threshold_16 js_level_40 js_level_35

lemma run_snoc: "run sys (evs @ [ev]) = step (run sys evs) ev"
  by (simp add: run_def)

lemma armed_system_eq:
  "armed_system =
     \<lparr>app = \<lparr>isActive = True, isAnalyzing = False, lastResult = None, history = [],
             currentInterval = 30000, nextScanTime = 30000, alarmCalls = 0\<rparr>,
      cam = \<lparr>prevFrameData = None, motionLevel = 0\<rparr>,
      stream = True, permissionError = False, cameraPending = 0,
      timeoutHandler = Some \<lparr>seenActive = True, seenAnalyzing = False, seenInterval = 30000\<rparr>,
      intervalHandlers = [\<lparr>seenActive = True, seenAnalyzing = False, seenInterval = 30000\<rparr>],
      pending = [], apiCalls = 0\<rparr>"
  by (simp add: armed_system_def system_defs app_defs startCamera_def Let_def)

lemma busy_system_step: "busy_system = step armed_system (TimeoutFires example_frame 1000)"
  by (simp add: busy_system_def armed_system_def run_def)

lemma busy_system_eq:
  "busy_system =
     \<lparr>app = \<lparr>isActive = True, isAnalyzing = True, lastResult = None, history = [],
             currentInterval = 30000, nextScanTime = 30000, alarmCalls = 0\<rparr>,
      cam = \<lparr>prevFrameData = Some (replicate 160 10), motionLevel = 0\<rparr>,
      stream = True, permissionError = False, cameraPending = 0,
      timeoutHandler = Some \<lparr>seenActive = True, seenAnalyzing = True, seenInterval = 30000\<rparr>,
      intervalHandlers =
        [\<lparr>seenActive = True, seenAnalyzing = False, seenInterval = 30000\<rparr>,
         \<lparr>seenActive = True, seenAnalyzing = True, seenInterval = 30000\<rparr>],
      pending = [\<lparr>seenActive = True, seenAnalyzing = False, seenInterval = 30000\<rparr>],
      apiCalls = 1\<rparr>"
  unfolding busy_system_step armed_system_eq
  by (simp add: example_frame_def system_defs app_defs cam_defs Let_def)

lemma backed_off_app_eq:
  "backed_off_app =
     \<lparr>isActive = False, isAnalyzing = False, lastResult = Some (cooldownResult 1000),
      history = [cooldownResult 1000], currentInterval = 60000, nextScanTime = 31000,
      alarmCalls = 0\<rparr>"
  by (simp add: backed_off_app_def app_defs Let_def)

lemma not_quota_empty_reply: "isQuotaMessage ''Resposta vazia da IA'' = False"
  by code_simp

lemma not_quota_fetch: "isQuotaMessage ''Failed to fetch'' = False"
  by code_simp

lemma not_quota_json: "isQuotaMessage ''Unexpected end of JSON input'' = False"
  by code_simp

lemma quota_status_429: "isQuotaMessage ''got status: 429 Too Many Requests'' = True"
  by code_simp

lemma quota_exhausted: "isQuotaMessage ''Resource has been exhausted (check QUOTA)'' = True"
  by code_simp

subsection \<open>The handlers, field by field\<close>

lemma cycle_idle:
  "\<not> isAnalyzing s \<Longrightarrow>
   cycle outcome tc tf s =
     handleImageCapture_settle (render s) outcome tc tf (s\<lparr>isAnalyzing := True\<rparr>)"
  by (simp add: cycle_def handleImageCapture_enter_def render_def Let_def)

lemma settle_quota_interval:
  "currentInterval (handleImageCapture_settle cl (Inl ''QUOTA_EXCEEDED'') tc tf s) =
     min (seenInterval cl * 2) 300000"
  by (simp add: handleImageCapture_settle_def Let_def)

lemma settle_quota_last:
  "lastResult (handleImageCapture_settle cl (Inl ''QUOTA_EXCEEDED'') tc tf s) =
     Some (cooldownResult tc)"
  by (simp add: handleImageCapture_settle_def Let_def)

lemma settle_success_interval:
  "currentInterval (handleImageCapture_settle cl (Inr r) tc tf s) = DEFAULT_INTERVAL"
  by (simp add: handleImageCapture_settle_def Let_def playAlarmSound_def)

lemma settle_success_last:
  "lastResult (handleImageCapture_settle cl (Inr r) tc tf s) = Some r"
  by (simp add: handleImageCapture_settle_def Let_def playAlarmSound_def)

lemma settle_success_history:
  "history (handleImageCapture_settle cl (Inr r) tc tf s) = addToHistory r (history s)"
  by (simp add: handleImageCapture_settle_def Let_def playAlarmSound_def)

lemma settle_success_alarm:
  "alarmCalls (handleImageCapture_settle cl (Inr r) tc tf s) =
     alarmCalls s + (if status r = PERSON_DETECTED then 1 else 0)"
  by (simp add: handleImageCapture_settle_def Let_def playAlarmSound_def)



text \<open>The event a settled call emits.\<close>

lemma settle_last:
  "lastResult (handleImageCapture_settle cl outcome tc tf s) =
     Some (case outcome of
             Inr result \<Rightarrow> result
           | Inl m \<Rightarrow> if m = ''QUOTA_EXCEEDED'' then cooldownResult tc
                      else sensorErrorResult m tc)"
  by (cases outcome) (simp_all add: handleImageCapture_settle_def Let_def playAlarmSound_def)

lemma settle_history:
  "history (handleImageCapture_settle cl outcome tc tf s) =
     addToHistory (case outcome of
                     Inr result \<Rightarrow> result
                   | Inl m \<Rightarrow> if m = ''QUOTA_EXCEEDED'' then cooldownResult tc
                              else sensorErrorResult m tc) (history s)"
  by (cases outcome) (simp_all add: handleImageCapture_settle_def Let_def playAlarmSound_def)

subsection \<open>The history never exceeds five entries\<close>

lemma length_addToHistory: "length (addToHistory e h) \<le> 5"
  by (simp add: addToHistory_def)

lemma history_settle_bounded:
  "length (history (handleImageCapture_settle cl outcome tc tf s)) \<le> 5"
  by (simp add: settle_history length_addToHistory)

lemma history_noMotion_bounded: "length (history (handleNoMotion cl now s)) \<le> 5"
  by (simp add: handleNoMotion_def Let_def length_addToHistory)

lemma history_toggle_bounded:
  "length (history s) \<le> 5 \<Longrightarrow> length (history (toggleSystem now s)) \<le> 5"
  by (simp add: toggleSystem_def Let_def)

lemma history_deliver_bounded:
  "length (history (app sys)) \<le> 5 \<Longrightarrow> length (history (app (deliver cl now cb sys))) \<le> 5"
  by (cases cb)
     (simp_all add: deliver_def onCapture_def onNoMotion_def handleImageCapture_enter_def
        history_noMotion_bounded)

lemma history_tick_bounded:
  "length (history (app sys)) \<le> 5 \<Longrightarrow> length (history (app (tick cl f now sys))) \<le> 5"
  by (simp add: tick_def split_def Let_def history_deliver_bounded)

lemma history_dispatch_bounded:
  assumes "length (history (app sys)) \<le> 5"
  shows "length (history (app (dispatch sys ev))) \<le> 5"
proof (cases ev)
  case (Toggle now)
  with assms show ?thesis
    by (simp add: toggle_def Let_def history_toggle_bounded)
next
  case (CameraSettled granted)
  with assms show ?thesis by (simp add: cameraSettled_def Let_def)
next
  case (TimeoutFires f now)
  with assms show ?thesis
    by (simp add: history_tick_bounded split: option.splits)
next
  case (IntervalFires k f now)
  with assms show ?thesis
    by (simp add: history_tick_bounded)
next
  case (ManualTrigger f now)
  with assms show ?thesis
    by (simp add: manualTrigger_def history_deliver_bounded)
next
  case (Settle k outcome tc tf)
  with assms show ?thesis
    by (simp add: settleAt_def history_settle_bounded)
qed

lemma app_intervalEffect: "app (intervalEffect sys0 sys1) = app sys1"
  by (simp add: intervalEffect_def)

lemma history_step_bounded:
  "length (history (app sys)) \<le> 5 \<Longrightarrow> length (history (app (step sys ev))) \<le> 5"
  by (simp add: step_def app_intervalEffect history_dispatch_bounded)

lemma history_run_bounded:
  "length (history (app sys)) \<le> 5 \<Longrightarrow> length (history (app (run sys evs))) \<le> 5"
  unfolding run_def
  by (induction evs arbitrary: sys) (simp_all add: history_step_bounded)

subsection \<open>The busy guard\<close>





subsection \<open>The loop counts the changed pixels\<close>

lemma diffLoop_fst:
  "length cur = 4 * n \<Longrightarrow> k \<le> n \<Longrightarrow>
   fst (diffLoop cur prev (4 * k) c t) = c + length (filter (pixelChanged cur prev) [k..<n])"
proof (induction "n - k" arbitrary: k c t)
  case 0
  then have "k = n" by simp
  with 0 show ?case by (subst diffLoop.simps) simp
next
  case (Suc m)
  then have lt: "k < n" and m: "m = n - Suc k" and le: "Suc k \<le> n" by simp_all
  have idx: "4 * k + 4 = 4 * Suc k" by simp
  have upt: "[k..<n] = k # [Suc k..<n]" using lt by (simp add: upt_conv_Cons)
  have inb: "4 * k < length cur" using lt Suc.prems(1) by simp
  show ?case
  proof (cases "pixelDiff cur prev (4 * k)")
    case None
    then have np: "\<not> pixelChanged cur prev k" by (simp add: pixelChanged_def)
    have "diffLoop cur prev (4 * k) c t = diffLoop cur prev (4 * Suc k) c t"
      using inb None by (subst diffLoop.simps) (simp add: idx)
    then show ?thesis
      using Suc.hyps(1)[OF m Suc.prems(1) le, of c t] np upt by simp
  next
    case (Some d)
    show ?thesis
    proof (cases "d > 30")
      case True
      then have p: "pixelChanged cur prev k" using Some by (simp add: pixelChanged_def)
      have "diffLoop cur prev (4 * k) c t = diffLoop cur prev (4 * Suc k) (c + 1) (t + d)"
        using inb Some True by (subst diffLoop.simps) (simp add: idx)
      then show ?thesis
        using Suc.hyps(1)[OF m Suc.prems(1) le, of "c + 1" "t + d"] p upt by simp
    next
      case False
      then have np: "\<not> pixelChanged cur prev k" using Some by (simp add: pixelChanged_def)
      have "diffLoop cur prev (4 * k) c t = diffLoop cur prev (4 * Suc k) c t"
        using inb Some False by (subst diffLoop.simps) (simp add: idx)
      then show ?thesis
        using Suc.hyps(1)[OF m Suc.prems(1) le, of c t] np upt by simp
    qed
  qed
qed

lemma pixelChanged_in_range:
  "length cur = 4 * n \<Longrightarrow> length prev = 4 * n \<Longrightarrow> j < n \<Longrightarrow>
   pixelChanged cur prev j = spec_pixelChanged cur prev j"
  by (simp add: pixelChanged_def spec_pixelChanged_def pixelDiff_def byteAt_def absDiff_def
      addNum_def Let_def)

lemma filter_pixelChanged:
  "length cur = 4 * n \<Longrightarrow> length prev = 4 * n \<Longrightarrow>
   filter (pixelChanged cur prev) [0..<n] = filter (spec_pixelChanged cur prev) [0..<n]"
  by (rule filter_cong) (simp_all add: pixelChanged_in_range)

lemma spec_motionLevel_same: "spec_motionLevel d d n = 0"
  by (simp add: spec_motionLevel_def spec_changedPixelCount_def spec_pixelChanged_def
      js_level_zero)

lemma roundHalfEven_nonneg: "0 \<le> x \<Longrightarrow> 0 \<le> roundHalfEven x"
  by (simp add: roundHalfEven_def Let_def)

lemma pow2_pos: "0 < pow2 e"
  by (simp add: pow2_def)

lemma roundToDouble_nonneg:
  assumes "0 \<le> x"
  shows "0 \<le> roundToDouble x"
proof (cases "x = 0")
  case True
  then show ?thesis by (simp add: roundToDouble_zero)
next
  case False
  with assms have pos: "0 < x" by simp
  let ?u = "pow2 (max (ilog2 \<bar>x\<bar>) (- 1022) - 52)"
  have "0 \<le> \<bar>x\<bar> / ?u" using pow2_pos[of "max (ilog2 \<bar>x\<bar>) (- 1022) - 52"] by simp
  then have "0 \<le> roundHalfEven (\<bar>x\<bar> / ?u)" by (rule roundHalfEven_nonneg)
  then have "0 \<le> sgn x * of_int (roundHalfEven (\<bar>x\<bar> / ?u)) * ?u"
    using pos pow2_pos[of "max (ilog2 \<bar>x\<bar>) (- 1022) - 52"] by simp
  then show ?thesis using False by (simp add: roundToDouble_def Let_def)
qed

lemma js_div_10_nonneg: "0 \<le> sens \<Longrightarrow> 0 \<le> js_div sens 10"
  by (simp add: js_div_def roundToDouble_nonneg)

lemma checkForMotion_level:
  assumes "prevFrameData c = Some prev" "length cur = 4 * n" "length prev = 4 * n"
  shows "checkForMotion sens c (Some cur) =
           (spec_motionLevel cur prev n > js_div sens 10,
            c\<lparr>prevFrameData := Some cur, motionLevel := spec_motionLevel cur prev n\<rparr>)"
proof -
  have "fst (diffLoop cur prev (4 * 0) 0 0) =
          0 + length (filter (pixelChanged cur prev) [0..<n])"
    by (rule diffLoop_fst) (simp_all add: assms)
  then have "fst (diffLoop cur prev 0 0 0) = spec_changedPixelCount cur prev n"
    using filter_pixelChanged[OF assms(2,3)] by (simp add: spec_changedPixelCount_def)
  then show ?thesis
    using assms(1)
    by (simp add: checkForMotion_def spec_motionLevel_def split_def Let_def)
qed

text \<open>The level of the concrete samples: all 40 (35) pixels change.\<close>

lemma spec_count_all:
  "spec_changedPixelCount (replicate (4 * n) 200) (replicate (4 * n) 10) n = n"
proof -
  have "filter (spec_pixelChanged (replicate (4 * n) 200) (replicate (4 * n) 10)) [0..<n] =
          [0..<n]"
    by (rule filter_True) (simp add: spec_pixelChanged_def)
  then show ?thesis by (simp add: spec_changedPixelCount_def)
qed

section \<open>The claims\<close>

subsection \<open>C5: capacity of the history\<close>

text \<open>
  C5. The history holds at most 5 events at all times: every push prepends the new event
  and keeps the first five entries, so a push onto a full history drops the oldest; after
  any six consecutive pushes the history is exactly the five most recent events, newest
  first; and after any sequence of events from the initial state the history of the
  system has at most 5 entries.
\<close>

theorem history_capacity:
  "length (addToHistory e h) \<le> 5
   \<and> addToHistory e h = e # take 4 h
   \<and> (length h = 5 \<longrightarrow> addToHistory e h = e # butlast h)
   \<and> addToHistory e6 (addToHistory e5 (addToHistory e4 (addToHistory e3
        (addToHistory e2 (addToHistory e1 h))))) = [e6, e5, e4, e3, e2]
   \<and> length (history (app (run (initial_system t0) evs))) \<le> 5"
proof -
  have a: "length (addToHistory e h) \<le> 5" by (rule length_addToHistory)
  have b: "addToHistory e h = e # take 4 h" by (simp add: addToHistory_def)
  have c: "length h = 5 \<longrightarrow> addToHistory e h = e # butlast h"
    by (simp add: addToHistory_def butlast_conv_take)
  have d: "addToHistory e6 (addToHistory e5 (addToHistory e4 (addToHistory e3
        (addToHistory e2 (addToHistory e1 h))))) = [e6, e5, e4, e3, e2]"
    by (simp add: addToHistory_def)
  have e: "length (history (app (run (initial_system t0) evs))) \<le> 5"
    by (rule history_run_bounded) (simp add: initial_system_def initial_app_def)
  from a b c d e show ?thesis by blast
qed

theorem history_capacity_witness:
  "length (replicate 5 example_result) = 5
   \<and> addToHistory (staticSceneResult 7) (replicate 5 example_result) =
       staticSceneResult 7 # butlast (replicate 5 example_result)
   \<and> addToHistory (staticSceneResult 7) (replicate 5 example_result) =
       [staticSceneResult 7, example_result, example_result, example_result, example_result]"
proof -
  have len: "length (replicate 5 example_result) = 5" by simp
  from history_capacity[of "staticSceneResult 7" "replicate 5 example_result"] len
  have "addToHistory (staticSceneResult 7) (replicate 5 example_result) =
          staticSceneResult 7 # butlast (replicate 5 example_result)"
    by blast
  moreover have "butlast (replicate 5 example_result) =
      [example_result, example_result, example_result, example_result]"
    by (simp add: numeral_eq_Suc)
  ultimately show ?thesis using len by simp
qed

subsection \<open>C4: the backoff policy\<close>

text \<open>
  C4, evaluated where the code departs from it. After a first quota failure the
  interval is 60000. The next scan starts a call, whose handler captures 60000; the
  system is deactivated while the call is pending, which resets the interval to 30000.
  The call then fails with QUOTA_EXCEEDED: the handler doubles the interval it captured
  and sets 120000, where \<open>min (current * 2) 300000\<close> is 60000.
\<close>

theorem quota_doubles_captured_interval:
  "currentInterval (app (run (initial_system 0) late_quota_events)) = 30000
   \<and> pending (run (initial_system 0) late_quota_events) =
       [\<lparr>seenActive = True, seenAnalyzing = False, seenInterval = 60000\<rparr>]
   \<and> currentInterval (app (run (initial_system 0)
        (late_quota_events @ [Settle 0 (Inl ''QUOTA_EXCEEDED'') 5000 5000]))) = 120000
   \<and> currentInterval (app (run (initial_system 0)
        (late_quota_events @ [Settle 0 (Inl ''QUOTA_EXCEEDED'') 5000 5000])))
     \<noteq> min (currentInterval (app (run (initial_system 0) late_quota_events)) * 2) 300000"
proof -
  have split: "run (initial_system 0) late_quota_events =
      step (step (step busy_system (Settle 0 (Inl ''QUOTA_EXCEEDED'') 2000 2000))
             (TimeoutFires example_frame_moved 3000)) (Toggle 4000)"
    by (simp add: late_quota_events_def busy_system_def run_def)
  have s1: "step busy_system (Settle 0 (Inl ''QUOTA_EXCEEDED'') 2000 2000) =
     \<lparr>app = \<lparr>isActive = True, isAnalyzing = False, lastResult = Some (cooldownResult 2000),
             history = [cooldownResult 2000], currentInterval = 60000,
             nextScanTime = 32000, alarmCalls = 0\<rparr>,
      cam = \<lparr>prevFrameData = Some (replicate 160 10), motionLevel = 0\<rparr>,
      stream = True, permissionError = False, cameraPending = 0,
      timeoutHandler = Some \<lparr>seenActive = True, seenAnalyzing = False, seenInterval = 60000\<rparr>,
      intervalHandlers =
        [\<lparr>seenActive = True, seenAnalyzing = False, seenInterval = 30000\<rparr>,
         \<lparr>seenActive = True, seenAnalyzing = True, seenInterval = 30000\<rparr>,
         \<lparr>seenActive = True, seenAnalyzing = False, seenInterval = 60000\<rparr>],
      pending = [], apiCalls = 1\<rparr>"
    unfolding busy_system_eq by (simp add: system_defs app_defs Let_def)
  have lvl: "spec_motionLevel (replicate 160 200) (replicate 160 10) 40 =
      3602879701896397 / 2251799813685248"
    using spec_count_all[of 40] by (simp add: spec_motionLevel_def js_level_40)
  have motion: "checkForMotion motionSensitivity_default
      \<lparr>prevFrameData = Some (replicate 160 10), motionLevel = 0\<rparr> (Some (replicate 160 200)) =
      (True, \<lparr>prevFrameData = Some (replicate 160 200),
              motionLevel = 3602879701896397 / 2251799813685248\<rparr>)"
    by (simp add: checkForMotion_level[where prev = "replicate 160 10" and n = 40] lvl
        motionSensitivity_default_def js_threshold_15)
  have s2: "step (step busy_system (Settle 0 (Inl ''QUOTA_EXCEEDED'') 2000 2000))
             (TimeoutFires example_frame_moved 3000) =
     \<lparr>app = \<lparr>isActive = True, isAnalyzing = True, lastResult = Some (cooldownResult 2000),
             history = [cooldownResult 2000], currentInterval = 60000,
             nextScanTime = 32000, alarmCalls = 0\<rparr>,
      cam = \<lparr>prevFrameData = Some (replicate 160 200),
             motionLevel = 3602879701896397 / 2251799813685248\<rparr>,
      stream = True, permissionError = False, cameraPending = 0,
      timeoutHandler = Some \<lparr>seenActive = True, seenAnalyzing = True, seenInterval = 60000\<rparr>,
      intervalHandlers =
        [\<lparr>seenActive = True, seenAnalyzing = False, seenInterval = 30000\<rparr>,
         \<lparr>seenActive = True, seenAnalyzing = True, seenInterval = 30000\<rparr>,
         \<lparr>seenActive = True, seenAnalyzing = False, seenInterval = 60000\<rparr>,
         \<lparr>seenActive = True, seenAnalyzing = True, seenInterval = 60000\<rparr>],
      pending = [\<lparr>seenActive = True, seenAnalyzing = False, seenInterval = 60000\<rparr>],
      apiCalls = 2\<rparr>"
    unfolding s1
    by (simp add: step_def tick_def processFrame_def motion example_frame_moved_def
        captureCurrentFrame_def whenImage_def deliver_def onCapture_def
        handleImageCapture_enter_def intervalEffect_def render_def)
  have off: "currentInterval (app (run (initial_system 0) late_quota_events)) = 30000
      \<and> pending (run (initial_system 0) late_quota_events) =
          [\<lparr>seenActive = True, seenAnalyzing = False, seenInterval = 60000\<rparr>]"
    unfolding split s2
    by (simp add: step_def toggle_def toggleSystem_def intervalEffect_def render_def
        DEFAULT_INTERVAL_def Let_def)
  have late: "currentInterval (app (run (initial_system 0)
        (late_quota_events @ [Settle 0 (Inl ''QUOTA_EXCEEDED'') 5000 5000]))) = 120000"
    unfolding run_snoc
    using off
    by (simp add: step_def app_intervalEffect settleAt_def settle_quota_interval)
  from off late show ?thesis by simp
qed

subsection \<open>C1: a call that settles after deactivation\<close>




subsection \<open>C2: a generic failure of the remote call\<close>

text \<open>
  C2, evaluated where the code departs from it. After one quota failure the interval is
  60000. The remote call then rejects with the message \<open>Failed to fetch\<close>, which is not
  a quota message: the client returns its ERROR result instead of throwing, the handler
  takes the branch of a returned result, emits that Error event and sets the interval
  to 30000. The \<open>catch\<close> branch of the handler, fed the same message directly, emits an
  Error event and leaves the interval at 60000.
\<close>

theorem generic_failure_resets_interval:
  "currentInterval backed_off_app = 60000
   \<and> analyzeImageForPerson failing_parse (Inl ''Failed to fetch'') 5000 = Inr (sensorFailure 5000)
   \<and> status (sensorFailure 5000) = ERROR
   \<and> lastResult (cycle (analyzeImageForPerson failing_parse (Inl ''Failed to fetch'') 5000)
        5000 5000 backed_off_app) = Some (sensorFailure 5000)
   \<and> currentInterval (cycle (analyzeImageForPerson failing_parse (Inl ''Failed to fetch'') 5000)
        5000 5000 backed_off_app) = 30000
   \<and> lastResult (cycle (Inl ''Failed to fetch'') 5000 5000 backed_off_app) =
       Some (sensorErrorResult ''Failed to fetch'' 5000)
   \<and> currentInterval (cycle (Inl ''Failed to fetch'') 5000 5000 backed_off_app) = 60000"
proof -
  have client: "analyzeImageForPerson failing_parse (Inl ''Failed to fetch'') 5000 =
      Inr (sensorFailure 5000)"
    by (simp add: analyzeImageForPerson_def analyze_try_def not_quota_fetch)
  have idle: "\<not> isAnalyzing backed_off_app" by (simp add: backed_off_app_eq)
  have cur: "currentInterval backed_off_app = 60000" by (simp add: backed_off_app_eq)
  have thrown: "currentInterval (cycle (Inl ''Failed to fetch'') 5000 5000 backed_off_app) = 60000"
    using cur by (simp add: cycle_idle[OF idle] handleImageCapture_settle_def Let_def)
  show ?thesis
    using cur thrown
    by (simp add: client cycle_idle[OF idle] settle_success_last settle_success_interval
        settle_last DEFAULT_INTERVAL_def sensorFailure_def)
qed

subsection \<open>C3: the next scan time after a cycle\<close>

text \<open>
  C3, evaluated where the code departs from it. From the initial state (interval 30000)
  a cycle ends in a quota failure at time 1000: the busy flag is cleared and the
  interval becomes 60000, but the next scan time is 1000 + 30000, computed from the
  interval the handler captured before the cycle. Likewise a success at time 5000 after
  that backoff resets the interval to 30000 and sets the next scan time to 5000 + 60000.
\<close>

theorem next_scan_uses_captured_interval:
  "\<not> isAnalyzing (cycle (Inl ''QUOTA_EXCEEDED'') 1000 1000 (initial_app 0))
   \<and> currentInterval (cycle (Inl ''QUOTA_EXCEEDED'') 1000 1000 (initial_app 0)) = 60000
   \<and> nextScanTime (cycle (Inl ''QUOTA_EXCEEDED'') 1000 1000 (initial_app 0)) = 1000 + 30000
   \<and> nextScanTime (cycle (Inl ''QUOTA_EXCEEDED'') 1000 1000 (initial_app 0)) \<noteq>
       1000 + currentInterval (cycle (Inl ''QUOTA_EXCEEDED'') 1000 1000 (initial_app 0))
   \<and> currentInterval (cycle (Inr example_result) 5000 5000 backed_off_app) = 30000
   \<and> nextScanTime (cycle (Inr example_result) 5000 5000 backed_off_app) = 5000 + 60000"
  by (simp add: backed_off_app_eq app_defs example_result_def Let_def)

subsection \<open>C7: captures while busy\<close>




subsection \<open>C8: classification of a returned verdict\<close>

text \<open>
  C8. When the remote call returns a non-empty text that parses to a verdict, the
  result is reliable iff \<open>personDetected\<close> holds and the confidence is greater than 45.
  The client returns status PERSON_DETECTED for a reliable verdict and NO_PERSON
  otherwise, with the description and the confidence of the verdict; the cycle makes that
  result the last result and the newest history entry, and invokes the alarm exactly
  once for a reliable verdict and not at all otherwise.
\<close>

theorem reliable_classification:
  assumes "textOutput \<noteq> []" and "parse textOutput = Inr verdict" and "\<not> isAnalyzing s"
  shows "analyzeImageForPerson parse (Inr (Some textOutput)) now =
           Inr \<lparr>status = (if personDetected verdict \<and> json_confidence verdict > 45
                           then PERSON_DETECTED else NO_PERSON),
                 message = (if personDetected verdict \<and> json_confidence verdict > 45
                            then ''AREA NAO SEGURA - INVASAO''
                            else ''AREA SEGURA - PERIMETRO LIMPO''),
                 description = Some (json_description verdict),
                 confidence = Some (json_confidence verdict),
                 timestamp = now\<rparr>
         \<and> lastResult (cycle (analyzeImageForPerson parse (Inr (Some textOutput)) now) tc tf s) =
             (case analyzeImageForPerson parse (Inr (Some textOutput)) now of
                Inr r \<Rightarrow> Some r | Inl m \<Rightarrow> None)
         \<and> (case analyzeImageForPerson parse (Inr (Some textOutput)) now of
                Inr r \<Rightarrow> history (cycle (Inr r) tc tf s) = r # take 4 (history s)
              | Inl m \<Rightarrow> False)
         \<and> alarmCalls (cycle (analyzeImageForPerson parse (Inr (Some textOutput)) now) tc tf s) =
             alarmCalls s
             + (if personDetected verdict \<and> json_confidence verdict > 45 then 1 else 0)"
proof -
  have client: "analyzeImageForPerson parse (Inr (Some textOutput)) now =
           Inr \<lparr>status = (if personDetected verdict \<and> json_confidence verdict > 45
                           then PERSON_DETECTED else NO_PERSON),
                 message = (if personDetected verdict \<and> json_confidence verdict > 45
                            then ''AREA NAO SEGURA - INVASAO''
                            else ''AREA SEGURA - PERIMETRO LIMPO''),
                 description = Some (json_description verdict),
                 confidence = Some (json_confidence verdict),
                 timestamp = now\<rparr>"
    using assms(1,2) by (simp add: analyzeImageForPerson_def analyze_try_def Let_def)
  show ?thesis
    unfolding client
    by (simp add: cycle_idle[OF assms(3)] settle_success_last settle_success_history
        settle_success_alarm addToHistory_def)
qed

theorem reliable_classification_witness:
  "analyzeImageForPerson (example_parse 46) (Inr (Some ''{}'')) 2500 =
     Inr \<lparr>status = PERSON_DETECTED, message = ''AREA NAO SEGURA - INVASAO'',
          description = Some ''vulto'', confidence = Some 46, timestamp = 2500\<rparr>
   \<and> alarmCalls (cycle (analyzeImageForPerson (example_parse 46) (Inr (Some ''{}'')) 2500)
        2600 2600 (initial_app 0)) = 1
   \<and> analyzeImageForPerson (example_parse 45) (Inr (Some ''{}'')) 2500 =
     Inr \<lparr>status = NO_PERSON, message = ''AREA SEGURA - PERIMETRO LIMPO'',
          description = Some ''vulto'', confidence = Some 45, timestamp = 2500\<rparr>
   \<and> alarmCalls (cycle (analyzeImageForPerson (example_parse 45) (Inr (Some ''{}'')) 2500)
        2600 2600 (initial_app 0)) = 0"
proof -
  have nonempty: "''{}'' \<noteq> []" by simp
  have p46: "example_parse 46 ''{}'' =
      Inr \<lparr>personDetected = True, json_confidence = 46, json_description = ''vulto''\<rparr>"
    and p45: "example_parse 45 ''{}'' =
      Inr \<lparr>personDetected = True, json_confidence = 45, json_description = ''vulto''\<rparr>"
    by (simp_all add: example_parse_def)
  have idle: "\<not> isAnalyzing (initial_app 0)"
    and none: "alarmCalls (initial_app 0) = 0"
    by (simp_all add: initial_app_def)
  note r46 = reliable_classification[where textOutput = "''{}''" and parse = "example_parse 46"
      and s = "initial_app 0" and now = 2500 and tc = 2600 and tf = 2600, OF nonempty p46 idle]
  note r45 = reliable_classification[where textOutput = "''{}''" and parse = "example_parse 45"
      and s = "initial_app 0" and now = 2500 and tc = 2600 and tf = 2600, OF nonempty p45 idle]
  have a: "analyzeImageForPerson (example_parse 46) (Inr (Some ''{}'')) 2500 =
     Inr \<lparr>status = PERSON_DETECTED, message = ''AREA NAO SEGURA - INVASAO'',
          description = Some ''vulto'', confidence = Some 46, timestamp = 2500\<rparr>"
    using r46[THEN conjunct1] by simp
  have b: "alarmCalls (cycle (analyzeImageForPerson (example_parse 46) (Inr (Some ''{}'')) 2500)
        2600 2600 (initial_app 0)) = 1"
    using r46[THEN conjunct2, THEN conjunct2, THEN conjunct2] none by simp
  have c: "analyzeImageForPerson (example_parse 45) (Inr (Some ''{}'')) 2500 =
     Inr \<lparr>status = NO_PERSON, message = ''AREA SEGURA - PERIMETRO LIMPO'',
          description = Some ''vulto'', confidence = Some 45, timestamp = 2500\<rparr>"
    using r45[THEN conjunct1] by simp
  have d: "alarmCalls (cycle (analyzeImageForPerson (example_parse 45) (Inr (Some ''{}'')) 2500)
        2600 2600 (initial_app 0)) = 0"
    using r45[THEN conjunct2, THEN conjunct2, THEN conjunct2] none by simp
  from a b c d show ?thesis by blast
qed

subsection \<open>C10: what the client throws\<close>

text \<open>
  C10. The only error the client throws is QUOTA_EXCEEDED, and it throws it exactly
  when its \<open>try\<close> block fails with a message that contains 429 or quota (in any
  letter case). For every other failure of the \<open>try\<close> block, among them an undefined
  or empty response text and a text that does not parse, the client returns its result
  with status ERROR. The handler treats that result like any returned result: it
  becomes the last result and the newest history entry and the interval is set to the
  default, all of which is the branch of the handler for a returned result and not its
  \<open>catch\<close> branch.
\<close>

theorem client_throws_only_quota:
  "(\<forall>e. analyzeImageForPerson parse reply now = Inl e \<longrightarrow> e = ''QUOTA_EXCEEDED'')
   \<and> (analyzeImageForPerson parse reply now = Inl ''QUOTA_EXCEEDED'' \<longleftrightarrow>
        (\<exists>m. analyze_try parse reply now = Inl m \<and> isQuotaMessage m))
   \<and> (\<forall>m. analyze_try parse reply now = Inl m \<and> \<not> isQuotaMessage m \<longrightarrow>
        analyzeImageForPerson parse reply now = Inr (sensorFailure now))
   \<and> (\<forall>m. \<not> isQuotaMessage m \<longrightarrow>
        analyzeImageForPerson parse (Inl m) now = Inr (sensorFailure now))
   \<and> analyzeImageForPerson parse (Inr None) now = Inr (sensorFailure now)
   \<and> analyzeImageForPerson parse (Inr (Some [])) now = Inr (sensorFailure now)
   \<and> (\<forall>t m. t \<noteq> [] \<and> parse t = Inl m \<and> \<not> isQuotaMessage m \<longrightarrow>
        analyzeImageForPerson parse (Inr (Some t)) now = Inr (sensorFailure now))
   \<and> status (sensorFailure now) = ERROR
   \<and> handleImageCapture_settle cl (Inr (sensorFailure now)) tc tf s =
       s\<lparr>lastResult := Some (sensorFailure now),
          history := addToHistory (sensorFailure now) (history s),
          currentInterval := DEFAULT_INTERVAL,
          isAnalyzing := False,
          nextScanTime := tf + seenInterval cl\<rparr>"
proof -
  have only: "\<forall>e. analyzeImageForPerson parse reply now = Inl e \<longrightarrow> e = ''QUOTA_EXCEEDED''"
    by (auto simp: analyzeImageForPerson_def split: sum.splits if_splits)
  have iff: "analyzeImageForPerson parse reply now = Inl ''QUOTA_EXCEEDED'' \<longleftrightarrow>
        (\<exists>m. analyze_try parse reply now = Inl m \<and> isQuotaMessage m)"
    by (auto simp: analyzeImageForPerson_def split: sum.splits if_splits)
  have other: "\<forall>m. analyze_try parse reply now = Inl m \<and> \<not> isQuotaMessage m \<longrightarrow>
        analyzeImageForPerson parse reply now = Inr (sensorFailure now)"
    by (simp add: analyzeImageForPerson_def)
  have rejected: "\<forall>m. \<not> isQuotaMessage m \<longrightarrow>
        analyzeImageForPerson parse (Inl m) now = Inr (sensorFailure now)"
    by (simp add: analyzeImageForPerson_def analyze_try_def)
  have undefined_text: "analyzeImageForPerson parse (Inr None) now = Inr (sensorFailure now)"
    by (simp add: analyzeImageForPerson_def analyze_try_def not_quota_empty_reply)
  have empty_text: "analyzeImageForPerson parse (Inr (Some [])) now = Inr (sensorFailure now)"
    by (simp add: analyzeImageForPerson_def analyze_try_def not_quota_empty_reply)
  have malformed: "\<forall>t m. t \<noteq> [] \<and> parse t = Inl m \<and> \<not> isQuotaMessage m \<longrightarrow>
        analyzeImageForPerson parse (Inr (Some t)) now = Inr (sensorFailure now)"
    by (simp add: analyzeImageForPerson_def analyze_try_def)
  have st: "status (sensorFailure now) = ERROR"
    by (simp add: sensorFailure_def)
  have path: "handleImageCapture_settle cl (Inr (sensorFailure now)) tc tf s =
       s\<lparr>lastResult := Some (sensorFailure now),
          history := addToHistory (sensorFailure now) (history s),
          currentInterval := DEFAULT_INTERVAL,
          isAnalyzing := False,
          nextScanTime := tf + seenInterval cl\<rparr>"
    by (simp add: handleImageCapture_settle_def Let_def st)
  from only iff other rejected undefined_text empty_text malformed st path
  show ?thesis by blast
qed

theorem client_throws_only_quota_witness:
  "analyzeImageForPerson failing_parse (Inl ''got status: 429 Too Many Requests'') 5000 =
     Inl ''QUOTA_EXCEEDED''
   \<and> analyzeImageForPerson failing_parse (Inl ''Failed to fetch'') 5000 = Inr (sensorFailure 5000)
   \<and> analyzeImageForPerson failing_parse (Inr (Some ''{'')) 5000 = Inr (sensorFailure 5000)"
proof -
  have q: "analyze_try failing_parse (Inl ''got status: 429 Too Many Requests'') 5000 =
      Inl ''got status: 429 Too Many Requests''"
    by (simp add: analyze_try_def)
  have bad: "''{'' \<noteq> [] \<and> failing_parse ''{'' = Inl ''Unexpected end of JSON input''
      \<and> \<not> isQuotaMessage ''Unexpected end of JSON input''"
    by (simp add: failing_parse_def not_quota_json)
  from client_throws_only_quota[of failing_parse "Inl ''got status: 429 Too Many Requests''" 5000]
       q quota_status_429
  have a: "analyzeImageForPerson failing_parse (Inl ''got status: 429 Too Many Requests'') 5000 =
     Inl ''QUOTA_EXCEEDED''"
    by blast
  from client_throws_only_quota[of failing_parse _ 5000] not_quota_fetch
  have b: "analyzeImageForPerson failing_parse (Inl ''Failed to fetch'') 5000 =
     Inr (sensorFailure 5000)"
    by blast
  from client_throws_only_quota[of failing_parse _ 5000] bad
  have c: "analyzeImageForPerson failing_parse (Inr (Some ''{'')) 5000 = Inr (sensorFailure 5000)"
    by blast
  from a b c show ?thesis by blast
qed

subsection \<open>C9: the cold start of the motion detector\<close>

text \<open>
  C9. When no previous sample is stored, \<open>checkForMotion\<close> returns true for every
  sample and every sensitivity, stores the sample and leaves the rest of its state
  (the motion level) untouched. No sample is stored in the initial state and after the
  camera has started. Hence a tick on a frame of a running camera, with no sample
  stored, hands the captured image to \<open>onCapture\<close>, and a handler whose \<open>isAnalyzing\<close>
  is false then calls the analysis client.
\<close>

theorem cold_start_motion:
  "(prevFrameData c = None \<longrightarrow>
      checkForMotion sens c (Some d) = (True, c\<lparr>prevFrameData := Some d\<rparr>))
   \<and> prevFrameData (startCamera True c) = None
   \<and> prevFrameData (cam (initial_system t0)) = None
   \<and> (prevFrameData c = None \<and> refsPresent f \<and> 0 < videoWidth f \<and> 0 < videoHeight f
        \<and> canvasCtxPresent f \<and> sampleData f = Some d \<and> dataURL f \<noteq> [] \<longrightarrow>
      processFrame True sens f c = (OnCapture (dataURL f), c\<lparr>prevFrameData := Some d\<rparr>))
   \<and> (prevFrameData (cam sys) = None \<and> seenActive cl \<and> \<not> seenAnalyzing cl
        \<and> refsPresent f \<and> 0 < videoWidth f \<and> 0 < videoHeight f
        \<and> canvasCtxPresent f \<and> sampleData f = Some d \<and> dataURL f \<noteq> [] \<longrightarrow>
      apiCalls (tick cl f now sys) = apiCalls sys + 1
      \<and> pending (tick cl f now sys) = pending sys @ [cl]
      \<and> prevFrameData (cam (tick cl f now sys)) = Some d)"
proof -
  have cold: "prevFrameData c' = None \<Longrightarrow>
      checkForMotion sens' c' (Some d) = (True, c'\<lparr>prevFrameData := Some d\<rparr>)" for c' sens'
    by (simp add: checkForMotion_def)
  have pf: "prevFrameData c' = None \<and> refsPresent f \<and> 0 < videoWidth f \<and> 0 < videoHeight f
        \<and> canvasCtxPresent f \<and> sampleData f = Some d \<and> dataURL f \<noteq> [] \<Longrightarrow>
      processFrame True sens' f c' = (OnCapture (dataURL f), c'\<lparr>prevFrameData := Some d\<rparr>)"
    for c' sens'
    by (simp add: processFrame_def cold captureCurrentFrame_def whenImage_def)
  have tk: "prevFrameData (cam sys) = None \<and> seenActive cl \<and> \<not> seenAnalyzing cl
        \<and> refsPresent f \<and> 0 < videoWidth f \<and> 0 < videoHeight f
        \<and> canvasCtxPresent f \<and> sampleData f = Some d \<and> dataURL f \<noteq> [] \<Longrightarrow>
      apiCalls (tick cl f now sys) = apiCalls sys + 1
      \<and> pending (tick cl f now sys) = pending sys @ [cl]
      \<and> prevFrameData (cam (tick cl f now sys)) = Some d"
    by (simp add: tick_def pf deliver_def onCapture_def handleImageCapture_enter_def)
  have restart: "prevFrameData (startCamera True c) = None"
    by (simp add: startCamera_def)
  have init: "prevFrameData (cam (initial_system t0)) = None"
    by (simp add: initial_system_def)
  from cold[of c sens] pf[of c sens] tk restart init show ?thesis by blast
qed

theorem cold_start_motion_witness:
  "prevFrameData (cam armed_system) = None
   \<and> timeoutHandler armed_system = Some (render (app armed_system))
   \<and> apiCalls (tick (render (app armed_system)) example_frame 1000 armed_system) = 1
   \<and> checkForMotion 15 \<lparr>prevFrameData = None, motionLevel = 0\<rparr> (Some [1, 2, 3, 255]) =
       (True, \<lparr>prevFrameData = Some [1, 2, 3, 255], motionLevel = 0\<rparr>)"
proof -
  have pre: "prevFrameData (cam armed_system) = None
      \<and> seenActive (render (app armed_system))
      \<and> \<not> seenAnalyzing (render (app armed_system))
      \<and> refsPresent example_frame \<and> 0 < videoWidth example_frame
      \<and> 0 < videoHeight example_frame \<and> canvasCtxPresent example_frame
      \<and> sampleData example_frame = Some (replicate 160 10) \<and> dataURL example_frame \<noteq> []"
    by (simp add: armed_system_eq render_def example_frame_def)
  have calls: "apiCalls armed_system = 0"
    and handler: "timeoutHandler armed_system = Some (render (app armed_system))"
    by (simp_all add: armed_system_eq render_def)
  have none: "prevFrameData \<lparr>prevFrameData = None, motionLevel = 0\<rparr> = None" by simp
  from cold_start_motion[of "\<lparr>prevFrameData = None, motionLevel = 0\<rparr>" 15 "[1, 2, 3, 255]"]
       none
  have a: "checkForMotion 15 \<lparr>prevFrameData = None, motionLevel = 0\<rparr> (Some [1, 2, 3, 255]) =
       (True, \<lparr>prevFrameData = Some [1, 2, 3, 255], motionLevel = 0\<rparr>)"
    by simp
  from cold_start_motion[of _ _ "replicate 160 10" _ example_frame armed_system
         "render (app armed_system)" 1000]
       pre calls
  have b: "apiCalls (tick (render (app armed_system)) example_frame 1000 armed_system) = 1"
    by simp
  from a b pre handler show ?thesis by blast
qed

subsection \<open>C6: the motion level and the threshold\<close>

text \<open>
  C6. When a previous sample is stored and both samples hold \<open>n\<close> RGBA pixels (2500 for
  the 50 by 50 grid), \<open>checkForMotion\<close> counts a pixel as changed iff the sum of the
  absolute differences of its R, G and B bytes against the previous sample exceeds 30,
  sets the motion level to the number of changed pixels divided by 2500 times 100,
  returns true iff that level is greater than the sensitivity divided by 10, and stores
  the current sample; the divisions and the multiplication are those of doubles. For two
  identical samples the motion level is 0 and, with the default sensitivity 15 and with
  any sensitivity that is not negative, the result is false.
\<close>

theorem motion_level_threshold:
  assumes "prevFrameData c = Some prev" and "length cur = 4 * n" and "length prev = 4 * n"
  shows "checkForMotion sens c (Some cur) =
           (spec_motionLevel cur prev n > js_div sens 10,
            c\<lparr>prevFrameData := Some cur, motionLevel := spec_motionLevel cur prev n\<rparr>)
         \<and> spec_motionLevel cur prev n =
             js_mul (js_div (of_nat (length (filter (spec_pixelChanged cur prev) [0..<n])))
                       2500) 100
         \<and> (\<forall>j. spec_pixelChanged cur prev j \<longleftrightarrow>
               \<bar>uint (cur ! (4 * j)) - uint (prev ! (4 * j))\<bar>
               + \<bar>uint (cur ! (4 * j + 1)) - uint (prev ! (4 * j + 1))\<bar>
               + \<bar>uint (cur ! (4 * j + 2)) - uint (prev ! (4 * j + 2))\<bar> > 30)
         \<and> (cur = prev \<longrightarrow>
               checkForMotion motionSensitivity_default c (Some cur) =
                 (False, c\<lparr>prevFrameData := Some cur, motionLevel := 0\<rparr>)
               \<and> (0 \<le> sens \<longrightarrow>
                    checkForMotion sens c (Some cur) =
                      (False, c\<lparr>prevFrameData := Some cur, motionLevel := 0\<rparr>)))"
proof -
  have level: "checkForMotion sens' c (Some cur) =
           (spec_motionLevel cur prev n > js_div sens' 10,
            c\<lparr>prevFrameData := Some cur, motionLevel := spec_motionLevel cur prev n\<rparr>)"
    for sens'
    by (rule checkForMotion_level[OF assms])
  have def: "spec_motionLevel cur prev n =
             js_mul (js_div (of_nat (length (filter (spec_pixelChanged cur prev) [0..<n])))
                       2500) 100"
    by (simp add: spec_motionLevel_def spec_changedPixelCount_def)
  have px: "\<forall>j. spec_pixelChanged cur prev j \<longleftrightarrow>
               \<bar>uint (cur ! (4 * j)) - uint (prev ! (4 * j))\<bar>
               + \<bar>uint (cur ! (4 * j + 1)) - uint (prev ! (4 * j + 1))\<bar>
               + \<bar>uint (cur ! (4 * j + 2)) - uint (prev ! (4 * j + 2))\<bar> > 30"
    by (simp add: spec_pixelChanged_def)
  have same: "cur = prev \<longrightarrow>
               checkForMotion motionSensitivity_default c (Some cur) =
                 (False, c\<lparr>prevFrameData := Some cur, motionLevel := 0\<rparr>)
               \<and> (0 \<le> sens \<longrightarrow>
                    checkForMotion sens c (Some cur) =
                      (False, c\<lparr>prevFrameData := Some cur, motionLevel := 0\<rparr>))"
  proof
    assume eq: "cur = prev"
    have zero: "spec_motionLevel cur prev n = 0"
      unfolding eq by (rule spec_motionLevel_same)
    have d: "checkForMotion motionSensitivity_default c (Some cur) =
        (False, c\<lparr>prevFrameData := Some cur, motionLevel := 0\<rparr>)"
      by (simp add: level[of 15] zero motionSensitivity_default_def js_threshold_15)
    have e: "0 \<le> sens \<longrightarrow>
        checkForMotion sens c (Some cur) =
          (False, c\<lparr>prevFrameData := Some cur, motionLevel := 0\<rparr>)"
    proof
      assume "0 \<le> sens"
      then have "\<not> 0 > js_div sens 10" using js_div_10_nonneg[of sens] by simp
      then show "checkForMotion sens c (Some cur) =
          (False, c\<lparr>prevFrameData := Some cur, motionLevel := 0\<rparr>)"
        by (simp add: level[of sens] zero)
    qed
    from d e show "checkForMotion motionSensitivity_default c (Some cur) =
                 (False, c\<lparr>prevFrameData := Some cur, motionLevel := 0\<rparr>)
               \<and> (0 \<le> sens \<longrightarrow>
                    checkForMotion sens c (Some cur) =
                      (False, c\<lparr>prevFrameData := Some cur, motionLevel := 0\<rparr>))"
      by blast
  qed
  from level[of sens] def px same show ?thesis by blast
qed

text \<open>
  Identical samples. Then 40 changed pixels at the sensitivities 15 and 16: the level
  is the double nearest to \<open>8 / 5\<close>, above the threshold \<open>3 / 2\<close> and equal to the
  double that \<open>16 / 10\<close> gives. Then 35 changed pixels at the sensitivity 14: the level
  is the double just above the one that \<open>14 / 10\<close> gives, so the result is true,
  although \<open>35 / 2500 * 100\<close> and \<open>14 / 10\<close> are equal as rationals.
\<close>

theorem motion_level_threshold_witness:
  "checkForMotion 15 \<lparr>prevFrameData = Some (replicate 160 10), motionLevel = 0\<rparr>
       (Some (replicate 160 10)) =
     (False, \<lparr>prevFrameData = Some (replicate 160 10), motionLevel = 0\<rparr>)
   \<and> checkForMotion 15 \<lparr>prevFrameData = Some (replicate 160 10), motionLevel = 0\<rparr>
       (Some (replicate 160 200)) =
     (True, \<lparr>prevFrameData = Some (replicate 160 200),
             motionLevel = 3602879701896397 / 2251799813685248\<rparr>)
   \<and> checkForMotion 16 \<lparr>prevFrameData = Some (replicate 160 10), motionLevel = 0\<rparr>
       (Some (replicate 160 200)) =
     (False, \<lparr>prevFrameData = Some (replicate 160 200),
              motionLevel = 3602879701896397 / 2251799813685248\<rparr>)
   \<and> checkForMotion 14 \<lparr>prevFrameData = Some (replicate 140 10), motionLevel = 0\<rparr>
       (Some (replicate 140 200)) =
     (True, \<lparr>prevFrameData = Some (replicate 140 200),
             motionLevel = 6305039478318695 / 4503599627370496\<rparr>)"
proof -
  have prev: "prevFrameData \<lparr>prevFrameData = Some (replicate 160 10), motionLevel = 0\<rparr> =
      Some (replicate 160 10)"
    and prev35: "prevFrameData \<lparr>prevFrameData = Some (replicate 140 10), motionLevel = 0\<rparr> =
      Some (replicate 140 10)"
    by simp_all
  have l10: "length (replicate 160 (10 :: 8 word)) = 4 * 40"
    and l200: "length (replicate 160 (200 :: 8 word)) = 4 * 40"
    and m10: "length (replicate 140 (10 :: 8 word)) = 4 * 35"
    and m200: "length (replicate 140 (200 :: 8 word)) = 4 * 35"
    by simp_all
  have lvl: "spec_motionLevel (replicate 160 200) (replicate 160 10) 40 =
      3602879701896397 / 2251799813685248"
    using spec_count_all[of 40] by (simp add: spec_motionLevel_def js_level_40)
  have lvl35: "spec_motionLevel (replicate 140 200) (replicate 140 10) 35 =
      6305039478318695 / 4503599627370496"
    using spec_count_all[of 35] by (simp add: spec_motionLevel_def js_level_35)
  from motion_level_threshold[OF prev l10 l10, of 15, THEN conjunct2, THEN conjunct2,
         THEN conjunct2]
  have a: "checkForMotion 15 \<lparr>prevFrameData = Some (replicate 160 10), motionLevel = 0\<rparr>
       (Some (replicate 160 10)) =
     (False, \<lparr>prevFrameData = Some (replicate 160 10), motionLevel = 0\<rparr>)"
    by (simp add: motionSensitivity_default_def)
  from motion_level_threshold[OF prev l200 l10, of 15, THEN conjunct1]
  have b: "checkForMotion 15 \<lparr>prevFrameData = Some (replicate 160 10), motionLevel = 0\<rparr>
       (Some (replicate 160 200)) =
     (True, \<lparr>prevFrameData = Some (replicate 160 200),
             motionLevel = 3602879701896397 / 2251799813685248\<rparr>)"
    by (simp add: lvl js_threshold_15)
  from motion_level_threshold[OF prev l200 l10, of 16, THEN conjunct1]
  have c: "checkForMotion 16 \<lparr>prevFrameData = Some (replicate 160 10), motionLevel = 0\<rparr>
       (Some (replicate 160 200)) =
     (False, \<lparr>prevFrameData = Some (replicate 160 200),
              motionLevel = 3602879701896397 / 2251799813685248\<rparr>)"
    by (simp add: lvl js_threshold_16)
  from motion_level_threshold[OF prev35 m200 m10, of 14, THEN conjunct1]
  have d: "checkForMotion 14 \<lparr>prevFrameData = Some (replicate 140 10), motionLevel = 0\<rparr>
       (Some (replicate 140 200)) =
     (True, \<lparr>prevFrameData = Some (replicate 140 200),
             motionLevel = 6305039478318695 / 4503599627370496\<rparr>)"
    by (simp add: lvl35 js_threshold_14)
  from a b c d show ?thesis by blast
qed

end
